theory Spec2Isabelle
  imports Main "HOL-Library.Word"
begin

section \<open>The Windows LLM bridge: \<^verbatim>\<open>tauri-plugin-llm/windows/windows_llm_bridge.cpp\<close>\<close>

text \<open>
  The file exports three C functions from a DLL:
  \<^verbatim>\<open>
  int   windows_llm_check_availability()            { return 3; }
  char* windows_llm_generate(const char* prompt,
                             float temperature,
                             int maxTokens)         { return nullptr; }
  void  windows_llm_free_string(char* ptr)          { if (ptr) { free(ptr); } }
  \<close>
  (compiled only under \<^verbatim>\<open>_WIN32\<close>; the stubs stand in for the WinRT AI SDK, which is
  not available at compile time). Each one is embedded as a function on an explicit
  state of the process, returning either a fault (undefined behaviour of the C program)
  or its C return value together with the state it leaves behind.
\<close>

subsection \<open>Values that cross the boundary\<close>

text \<open>
  A \<^verbatim>\<open>char*\<close> is a 64-bit address, the null pointer being address 0 (the test
  \<^verbatim>\<open>if (ptr)\<close> compares with it). A C \<^verbatim>\<open>int\<close> is a 32-bit word, read as signed
  with \<^const>\<open>sint\<close>. A \<^verbatim>\<open>float\<close> is carried as its 32-bit IEEE-754 pattern: the
  bridge never computes with the temperature, so every pattern (negative numbers,
  infinities and NaNs included) is a possible argument.
\<close>

type_synonym addr = "64 word"
type_synonym c_int = "32 word"
type_synonym c_float = "32 word"

definition nullptr :: addr where
  "nullptr = 0"

subsection \<open>The process state\<close>

text \<open>
  Modelled from the spec: the four availability states and their numbering
  (0 = Ready, 1 = NotReady, 2 = Disabled, 3 = Unsupported). The source only ever writes
  the number 3, with the comment \<^verbatim>\<open>3 = Not supported\<close>; the enumeration itself is
  declared on the host side of the plugin.
\<close>

datatype AvailabilityState = Ready | NotReady | Disabled | Unsupported

fun status_code :: "AvailabilityState \<Rightarrow> c_int" where
  "status_code Ready = 0"
| "status_code NotReady = 1"
| "status_code Disabled = 2"
| "status_code Unsupported = 3"

text \<open>
  The state of the process as far as the three entry points can touch or observe it.

  \<^item> \<open>heap_live\<close>: the blocks handed out by the C runtime's \<^verbatim>\<open>malloc\<close> family and
    not yet given back to \<^verbatim>\<open>free\<close>.
  \<^item> \<open>capability\<close> and \<open>backend\<close>: Modelled from the spec: the platform's capability
    backend, which is external to the bridge. \<open>capability\<close> is the availability state
    of the device; \<open>backend prompt temperature maxTokens\<close> is the completion the
    native service would produce for a request, \<open>None\<close> when it fails. No line of the
    source reads either of them; they are part of the state so that statements about
    "a ready device" or "a failing backend" have something to talk about.
\<close>

record world =
  heap_live :: "addr set"
  capability :: AvailabilityState
  backend :: "addr \<Rightarrow> c_float \<Rightarrow> c_int \<Rightarrow> string option"

text \<open>
  The only way a call of the bridge can go wrong is by handing \<^verbatim>\<open>free\<close> a pointer
  that is not a live block of the allocator, which the C standard leaves undefined.
\<close>

datatype fault = InvalidFree addr

text \<open>
  The C library's \<^verbatim>\<open>free\<close>: nothing happens for a null pointer; a live block is
  returned to the allocator; anything else (a block freed before, a pointer that never
  came from \<^verbatim>\<open>malloc\<close>) is undefined behaviour.
\<close>

definition c_free :: "addr \<Rightarrow> world \<Rightarrow> fault + world" where
  "c_free p w =
     (if p = nullptr then Inr w
      else if p \<in> heap_live w then Inr (w\<lparr>heap_live := heap_live w - {p}\<rparr>)
      else Inl (InvalidFree p))"

subsection \<open>The three entry points\<close>

definition windows_llm_check_availability :: "world \<Rightarrow> fault + (c_int \<times> world)" where
  "windows_llm_check_availability w = Inr (3, w)"

definition windows_llm_generate ::
    "addr \<Rightarrow> c_float \<Rightarrow> c_int \<Rightarrow> world \<Rightarrow> fault + (addr \<times> world)" where
  "windows_llm_generate prompt temperature maxTokens w = Inr (nullptr, w)"

definition windows_llm_free_string :: "addr \<Rightarrow> world \<Rightarrow> fault + world" where
  "windows_llm_free_string ptr w = (if ptr \<noteq> nullptr then c_free ptr w else Inr w)"

text \<open>A call hands a buffer to its caller when it returns normally with a non-null pointer.\<close>

definition returns_buffer :: "fault + (addr \<times> world) \<Rightarrow> bool" where
  "returns_buffer res = (case res of Inl f \<Rightarrow> False | Inr (p, w) \<Rightarrow> p \<noteq> nullptr)"

subsection \<open>Histories of calls\<close>





subsection \<open>Concrete devices and requests\<close>

text \<open>
  A machine with no NPU and nothing on the heap; a Copilot+ PC whose native service is
  ready and answers every request; the same PC with a service that fails every request;
  and a process that holds one live block at address \<open>0x2000\<close>.
\<close>

definition plain_pc :: world where
  "plain_pc = \<lparr>heap_live = {}, capability = Unsupported, backend = (\<lambda>p t m. None)\<rparr>"

definition copilot_pc :: world where
  "copilot_pc =
     \<lparr>heap_live = {}, capability = Ready, backend = (\<lambda>p t m. Some ''Hi there'')\<rparr>"

definition failing_pc :: world where
  "failing_pc = \<lparr>heap_live = {}, capability = Ready, backend = (\<lambda>p t m. None)\<rparr>"


text \<open>
  A prompt at address \<open>0x1000\<close> and the temperature 0.7 (the pattern \<open>0x3F333333\<close>).
\<close>

definition hello :: addr where
  "hello = 4096"

definition temp07 :: c_float where
  "temp07 = 1060320051"

section \<open>Properties\<close>

text \<open>
  C3. The stub is unconditionally unsupported: in every state of the process (whatever
  the device and its backend are) the availability probe returns exactly 3, and for every
  prompt pointer, temperature and token bound the generate operation returns the null
  pointer. Both return normally and leave the state as it was, so no input takes an
  available or successful path.
\<close>

theorem stub_unconditionally_unsupported:
  "windows_llm_check_availability w = Inr (3, w) \<and>
   windows_llm_generate prompt temperature maxTokens w = Inr (nullptr, w) \<and>
   \<not> returns_buffer (windows_llm_generate prompt temperature maxTokens w)"
  by (simp add: windows_llm_check_availability_def windows_llm_generate_def
      returns_buffer_def)

text \<open>
  C4. Every call of the availability probe returns normally, with an integer of the
  closed set {0, 1, 2, 3}.
\<close>

theorem probe_in_closed_set:
  "\<exists>code. windows_llm_check_availability w = Inr (code, w) \<and> code \<in> {0, 1, 2, 3}"
  by (simp add: windows_llm_check_availability_def)

text \<open>
  C7. Releasing the null pointer is a no-op: it returns normally, never reaches
  \<^verbatim>\<open>free\<close>, and leaves the allocator (and everything else) unchanged, in every
  state. Calling it again is therefore a no-op as well.
\<close>

theorem release_null_noop:
  "windows_llm_free_string nullptr w = Inr w"
  by (simp add: windows_llm_free_string_def)




text \<open>
  C2. Graceful degradation. If the availability probe returns a status other than the
  code of Ready (that is 1, 2 or 3), then a generate call made afterwards with a
  well-formed request (a non-null prompt and \<open>maxTokens > 0\<close>) returns normally with the
  null pointer.
\<close>

theorem degrade_when_not_ready:
  assumes "windows_llm_check_availability w = Inr (status, w1)"
    and "status \<noteq> status_code Ready"
    and "prompt \<noteq> nullptr"
    and "0 < sint maxTokens"
  shows "windows_llm_generate prompt temperature maxTokens w1 = Inr (nullptr, w1)"
  by (simp add: windows_llm_generate_def)

text \<open>
  Scenario B of the specification: the probe reports 3 on a machine without the
  capability, and \<open>generate(prompt, 0.7, 256)\<close> returns null.
\<close>

theorem degrade_when_not_ready_witness:
  "windows_llm_check_availability plain_pc = Inr (3, plain_pc) \<and>
   (3 :: c_int) \<noteq> status_code Ready \<and>
   hello \<noteq> nullptr \<and>
   0 < sint (256 :: c_int) \<and>
   windows_llm_generate hello temp07 256 plain_pc = Inr (nullptr, plain_pc)"
proof -
  have a: "windows_llm_check_availability plain_pc = Inr (3, plain_pc)"
    by (simp add: windows_llm_check_availability_def)
  have b: "(3 :: c_int) \<noteq> status_code Ready"
    by simp
  have c: "hello \<noteq> nullptr"
    by (simp add: hello_def nullptr_def)
  have d: "0 < sint (256 :: c_int)"
    by simp
  from degrade_when_not_ready [OF a b c d] a b c d show ?thesis
    by blast
qed

text \<open>
  C6. Failure signalling. For every request on which the backend is absent (the device
  is not Ready) or fails (produces no completion), generate returns normally (nothing
  is raised across the boundary) with exactly the null pointer, and so hands no buffer,
  partial or otherwise, to the caller.
\<close>

theorem failure_returns_null:
  assumes "capability w \<noteq> Ready \<or> backend w prompt temperature maxTokens = None"
  shows "windows_llm_generate prompt temperature maxTokens w = Inr (nullptr, w) \<and>
         \<not> returns_buffer (windows_llm_generate prompt temperature maxTokens w)"
  by (simp add: windows_llm_generate_def returns_buffer_def)

theorem failure_returns_null_witness:
  "backend failing_pc hello temp07 16 = None \<and>
   windows_llm_generate hello temp07 16 failing_pc = Inr (nullptr, failing_pc) \<and>
   \<not> returns_buffer (windows_llm_generate hello temp07 16 failing_pc)"
proof -
  have f: "backend failing_pc hello temp07 16 = None"
    by (simp add: failing_pc_def)
  then have "capability failing_pc \<noteq> Ready \<or> backend failing_pc hello temp07 16 = None"
    by (rule disjI2)
  from failure_returns_null [OF this] f show ?thesis
    by blast
qed

text \<open>
  C8, as stated, fails on the stub: the probe does not map the state of the device to
  its code. On a device that is Ready, whose code is 0, it returns 3.
\<close>

theorem probe_classification_counterexample:
  "capability copilot_pc = Ready \<and>
   status_code (capability copilot_pc) = 0 \<and>
   windows_llm_check_availability copilot_pc = Inr (3, copilot_pc) \<and>
   windows_llm_check_availability copilot_pc \<noteq>
     Inr (status_code (capability copilot_pc), copilot_pc)"
  by (simp add: copilot_pc_def windows_llm_check_availability_def)

text \<open>
  C8, amended. The probe does not classify the device. In every state (a device that is
  Ready, NotReady or Disabled as much as one without the capability) it returns
  normally, never failing, with the number 3; and under the numbering 0 = Ready,
  1 = NotReady, 2 = Disabled, 3 = Unsupported what it returns is the code of a state
  exactly when that state is Unsupported, so the codes 0, 1 and 2 are never returned.
\<close>

theorem probe_reports_only_unsupported:
  "windows_llm_check_availability w = Inr (3, w) \<and>
   (windows_llm_check_availability w = Inr (status_code s, w')) = (s = Unsupported \<and> w' = w)"
  by (cases s) (auto simp: windows_llm_check_availability_def)

text \<open>
  C9. Generate is total and reads nothing through its prompt argument. For every
  pointer value (the null pointer and addresses that are not mapped included), every
  temperature pattern (values outside [0.0, 2.0] included) and every token bound (zero
  and negative ones included), in every state, it returns normally with the null
  pointer and leaves the state alone; its outcome is the same for any two requests.
\<close>

theorem generate_total:
  "windows_llm_generate prompt temperature maxTokens w = Inr (nullptr, w) \<and>
   windows_llm_generate prompt temperature maxTokens w =
     windows_llm_generate prompt' temperature' maxTokens' w"
  by (simp add: windows_llm_generate_def)

text \<open>
  C5, as stated, fails on the stub: on a device whose backend is Ready and answers the
  request, the well-formed request \<open>generate(hello, 0.7, 16)\<close> hands no buffer to the
  caller.
\<close>

theorem success_postcondition_counterexample:
  "capability copilot_pc = Ready \<and>
   backend copilot_pc hello temp07 16 = Some ''Hi there'' \<and>
   hello \<noteq> nullptr \<and>
   0 < sint (16 :: c_int) \<and>
   \<not> returns_buffer (windows_llm_generate hello temp07 16 copilot_pc)"
  by (simp add: copilot_pc_def hello_def nullptr_def windows_llm_generate_def
      returns_buffer_def)

text \<open>
  C5, amended. For every well-formed request (non-null prompt, \<open>maxTokens > 0\<close>) made
  while the backend is Ready and would succeed, the stub's generate returns normally
  with the null pointer and allocates nothing; it hands a buffer to the caller for no
  request, so the postcondition on buffers (null-terminated, length bounded by
  \<open>maxTokens\<close>) applies to no result of this build.
\<close>

theorem ready_backend_still_null:
  assumes "capability w = Ready"
    and "backend w prompt temperature maxTokens = Some text"
    and "prompt \<noteq> nullptr"
    and "0 < sint maxTokens"
  shows "windows_llm_generate prompt temperature maxTokens w = Inr (nullptr, w) \<and>
         \<not> returns_buffer (windows_llm_generate prompt temperature maxTokens w)"
  by (simp add: windows_llm_generate_def returns_buffer_def)

theorem ready_backend_still_null_witness:
  "capability copilot_pc = Ready \<and>
   backend copilot_pc hello temp07 16 = Some ''Hi there'' \<and>
   hello \<noteq> nullptr \<and>
   0 < sint (16 :: c_int) \<and>
   windows_llm_generate hello temp07 16 copilot_pc = Inr (nullptr, copilot_pc) \<and>
   \<not> returns_buffer (windows_llm_generate hello temp07 16 copilot_pc)"
proof -
  have a: "capability copilot_pc = Ready"
    by (simp add: copilot_pc_def)
  have b: "backend copilot_pc hello temp07 16 = Some ''Hi there''"
    by (simp add: copilot_pc_def)
  have c: "hello \<noteq> nullptr"
    by (simp add: hello_def nullptr_def)
  have d: "0 < sint (16 :: c_int)"
    by simp
  from ready_backend_still_null [OF a b c d] a b c d show ?thesis
    by blast
qed

subsection \<open>State shared between calls\<close>



end
